theory Spec2Isabelle
  imports Main "HOL-Library.AList" "HOL-Library.Word"
begin

section \<open>Data model (the drizzle schema, in replit.md)\<close>

text \<open>
  Identifiers, e-mail addresses and names are strings. A \<open>Date\<close> is the number of
  milliseconds it holds (what \<open>getTime()\<close> returns). A nullable column is an
  \<open>option\<close>. A \<open>jsonb\<close> column and an unvalidated request body are values of
  \<open>json\<close>, where \<open>JUndefined\<close> stands for a property set to \<open>undefined\<close>.
\<close>

type_synonym date = int

datatype json =
    JUndefined
  | JNull
  | JBool bool
  | JNum int
  | JStr string
  | JArr "json list"
  | JObj "(string \<times> json) list"

record User =
  user_id :: string
  user_email :: string
  user_passwordHash :: string
  user_name :: string
  user_stripeCustomerId :: "string option"
  user_stripeSubscriptionId :: "string option"
  user_createdAt :: date

record Organization =
  org_id :: string
  org_name :: string
  org_ownerId :: string
  org_stripeCustomerId :: "string option"
  org_stripeSubscriptionId :: "string option"
  org_plan :: string
  org_trialEnd :: "date option"
  org_createdAt :: date

record OrgMember =
  member_orgId :: string
  member_userId :: string
  member_role :: string
  member_invitedBy :: "string option"
  member_invitedAt :: date
  member_acceptedAt :: "date option"
  member_createdAt :: date

record ApiKey =
  apikey_id :: string
  apikey_orgId :: string
  apikey_name :: string
  apikey_keyHash :: string
  apikey_keyPreview :: string
  apikey_lastUsedAt :: "date option"
  apikey_createdBy :: string
  apikey_createdAt :: date

record Setting =
  setting_orgId :: string
  setting_key :: string
  setting_value :: json
  setting_updatedBy :: string
  setting_updatedAt :: date

record Subscription =
  sub_orgId :: string
  sub_plan :: string
  sub_status :: string
  sub_periodEnd :: "date option"
  sub_metered :: json
  sub_updatedAt :: date

record AuditLog =
  log_id :: nat
  log_orgId :: string
  log_actorId :: "string option"
  log_action :: string
  log_entity :: string
  log_entityId :: "string option"
  log_metadata :: json
  log_createdAt :: date

record Pipeline =
  pipeline_id :: string
  pipeline_orgId :: string
  pipeline_name :: string
  pipeline_createdAt :: date

record Stage =
  stage_id :: string
  stage_orgId :: string
  stage_pipelineId :: string
  stage_name :: string
  stage_order :: int
  stage_createdAt :: date

record Lead =
  lead_id :: string
  lead_orgId :: string
  lead_stageId :: string
  lead_name :: string
  lead_email :: "string option"
  lead_source :: "string option"
  lead_notes :: "string option"
  lead_airtableRecordId :: "string option"
  lead_createdAt :: date
  lead_updatedAt :: date

record LeadComment =
  comment_id :: string
  comment_orgId :: string
  comment_leadId :: string
  comment_body :: string
  comment_userId :: string
  comment_mentionedUserIds :: "string list option"
  comment_createdAt :: date


record InsertOrganization =
  io_name :: string
  io_plan :: "string option"
  io_trialEnd :: "date option"

record InsertOrgMember =
  im_orgId :: string
  im_userId :: string
  im_role :: string
  im_invitedBy :: "string option"
  im_acceptedAt :: "date option"

record InsertApiKey =
  ia_orgId :: string
  ia_name :: string
  ia_createdBy :: string

record InsertApiKeyHashed = InsertApiKey +
  ia_keyHash :: string
  ia_keyPreview :: string

record InsertAuditLog =
  il_orgId :: string
  il_actorId :: "string option"
  il_action :: string
  il_entity :: string
  il_entityId :: "string option"
  il_metadata :: "json option"


record InsertStage =
  is_orgId :: string
  is_pipelineId :: string
  is_name :: string
  is_order :: int

record InsertLead =
  ile_orgId :: string
  ile_stageId :: string
  ile_name :: string
  ile_email :: "string option"
  ile_source :: "string option"
  ile_notes :: "string option"
  ile_airtableRecordId :: "string option"

record InsertLeadComment =
  ic_orgId :: string
  ic_leadId :: string
  ic_body :: string
  ic_userId :: string
  ic_mentionedUserIds :: "string list option"

text \<open>
  \<open>Partial<Stage>\<close> and \<open>Partial<Lead>\<close>: every field may be absent. The merge
  \<open>{ ...stage, ...updates }\<close> takes a field from \<open>updates\<close> where it is present.
\<close>

record PartialStage =
  ps_id :: "string option"
  ps_orgId :: "string option"
  ps_pipelineId :: "string option"
  ps_name :: "string option"
  ps_order :: "int option"
  ps_createdAt :: "date option"

record PartialLead =
  pl_id :: "string option"
  pl_orgId :: "string option"
  pl_stageId :: "string option"
  pl_name :: "string option"
  pl_email :: "string option option"
  pl_source :: "string option option"
  pl_notes :: "string option option"
  pl_airtableRecordId :: "string option option"
  pl_createdAt :: "date option"
  pl_updatedAt :: "date option"

definition or_else :: "'a option \<Rightarrow> 'a \<Rightarrow> 'a" where
  "or_else u v = (case u of None \<Rightarrow> v | Some w \<Rightarrow> w)"

definition merge_stage :: "Stage \<Rightarrow> PartialStage \<Rightarrow> Stage" where
  "merge_stage st u =
     \<lparr> stage_id = or_else (ps_id u) (stage_id st),
       stage_orgId = or_else (ps_orgId u) (stage_orgId st),
       stage_pipelineId = or_else (ps_pipelineId u) (stage_pipelineId st),
       stage_name = or_else (ps_name u) (stage_name st),
       stage_order = or_else (ps_order u) (stage_order st),
       stage_createdAt = or_else (ps_createdAt u) (stage_createdAt st) \<rparr>"

definition merge_lead :: "Lead \<Rightarrow> PartialLead \<Rightarrow> Lead" where
  "merge_lead l u =
     \<lparr> lead_id = or_else (pl_id u) (lead_id l),
       lead_orgId = or_else (pl_orgId u) (lead_orgId l),
       lead_stageId = or_else (pl_stageId u) (lead_stageId l),
       lead_name = or_else (pl_name u) (lead_name l),
       lead_email = or_else (pl_email u) (lead_email l),
       lead_source = or_else (pl_source u) (lead_source l),
       lead_notes = or_else (pl_notes u) (lead_notes l),
       lead_airtableRecordId = or_else (pl_airtableRecordId u) (lead_airtableRecordId l),
       lead_createdAt = or_else (pl_createdAt u) (lead_createdAt l),
       lead_updatedAt = or_else (pl_updatedAt u) (lead_updatedAt l) \<rparr>"

definition no_stage_updates :: PartialStage where
  "no_stage_updates =
     \<lparr> ps_id = None, ps_orgId = None, ps_pipelineId = None, ps_name = None,
       ps_order = None, ps_createdAt = None \<rparr>"

definition no_lead_updates :: PartialLead where
  "no_lead_updates =
     \<lparr> pl_id = None, pl_orgId = None, pl_stageId = None, pl_name = None,
       pl_email = None, pl_source = None, pl_notes = None, pl_airtableRecordId = None,
       pl_createdAt = None, pl_updatedAt = None \<rparr>"

section \<open>The in-memory store (server/storage.ts, class MemStorage)\<close>

text \<open>
  A JavaScript \<open>Map\<close> keeps its entries in insertion order, with one entry per
  key: it is an association list, \<open>get\<close> is \<open>map_of\<close>, \<open>set\<close> is
  \<open>AList.update\<close> (an existing key keeps its place, a new one goes to the end),
  \<open>delete\<close> is \<open>AList.delete\<close> and \<open>values()\<close> is \<open>map snd\<close>.
  \<open>auditLogs\<close> is an array.
\<close>

record MemStorage =
  users :: "(string \<times> User) list"
  organizations :: "(string \<times> Organization) list"
  orgMembers :: "(string \<times> OrgMember) list"
  apiKeys :: "(string \<times> ApiKey) list"
  settings :: "(string \<times> Setting) list"
  subscriptions :: "(string \<times> Subscription) list"
  auditLogs :: "AuditLog list"
  pipelines :: "(string \<times> Pipeline) list"
  stages :: "(string \<times> Stage) list"
  leads :: "(string \<times> Lead) list"
  leadComments :: "(string \<times> LeadComment) list"

definition empty_storage :: MemStorage where
  "empty_storage =
     \<lparr> users = [], organizations = [], orgMembers = [], apiKeys = [], settings = [],
       subscriptions = [], auditLogs = [], pipelines = [], stages = [], leads = [],
       leadComments = [] \<rparr>"

definition values_of :: "('k \<times> 'v) list \<Rightarrow> 'v list" where
  "values_of m = map snd m"

datatype error = Error string

subsection \<open>Users\<close>



definition getUserByEmail :: "string \<Rightarrow> MemStorage \<Rightarrow> User option" where
  "getUserByEmail email s = find (\<lambda>u. user_email u = email) (values_of (users s))"

subsection \<open>Organizations and members\<close>

text \<open>\<open>x || null\<close> on a string or null: the empty string is falsy.\<close>

definition or_null :: "string option \<Rightarrow> string option" where
  "or_null u = (case u of None \<Rightarrow> None | Some v \<Rightarrow> if v = [] then None else Some v)"

definition member_key :: "string \<Rightarrow> string \<Rightarrow> string" where
  "member_key orgId userId = orgId @ ''-'' @ userId"

definition addOrgMember ::
  "date \<Rightarrow> InsertOrgMember \<Rightarrow> MemStorage \<Rightarrow> OrgMember \<times> MemStorage" where
  "addOrgMember now insertMember s =
     (let key = member_key (im_orgId insertMember) (im_userId insertMember);
          member = \<lparr> member_orgId = im_orgId insertMember,
                     member_userId = im_userId insertMember,
                     member_role = im_role insertMember,
                     member_invitedBy = or_null (im_invitedBy insertMember),
                     member_invitedAt = now,
                     member_acceptedAt = im_acceptedAt insertMember,
                     member_createdAt = now \<rparr>
      in (member, s\<lparr>orgMembers := AList.update key member (orgMembers s)\<rparr>))"

definition createOrganization ::
  "string \<Rightarrow> date \<Rightarrow> InsertOrganization \<Rightarrow> string \<Rightarrow> MemStorage \<Rightarrow> Organization \<times> MemStorage" where
  "createOrganization uuid now insertOrg ownerId s =
     (let org = \<lparr> org_id = uuid, org_name = io_name insertOrg, org_ownerId = ownerId,
                  org_stripeCustomerId = None, org_stripeSubscriptionId = None,
                  org_plan = or_else (or_null (io_plan insertOrg)) ''free'',
                  org_trialEnd = None, org_createdAt = now \<rparr>;
          s1 = s\<lparr>organizations := AList.update uuid org (organizations s)\<rparr>;
          s2 = snd (addOrgMember now
                 \<lparr> im_orgId = uuid, im_userId = ownerId, im_role = ''admin'',
                   im_invitedBy = Some ownerId, im_acceptedAt = Some now \<rparr> s1);
          s3 = s2\<lparr>subscriptions :=
                  AList.update uuid
                    \<lparr> sub_orgId = uuid, sub_plan = ''free'', sub_status = ''active'',
                      sub_periodEnd = None, sub_metered = JObj [], sub_updatedAt = now \<rparr>
                    (subscriptions s2)\<rparr>
      in (org, s3))"



definition getOrgMember :: "string \<Rightarrow> string \<Rightarrow> MemStorage \<Rightarrow> OrgMember option" where
  "getOrgMember orgId userId s = map_of (orgMembers s) (member_key orgId userId)"

definition updateOrgMemberRole ::
  "string \<Rightarrow> string \<Rightarrow> string \<Rightarrow> MemStorage \<Rightarrow> error + OrgMember \<times> MemStorage" where
  "updateOrgMemberRole orgId userId role s =
     (case map_of (orgMembers s) (member_key orgId userId) of
        None \<Rightarrow> Inl (Error ''Member not found'')
      | Some member \<Rightarrow>
          let updated = member\<lparr>member_role := role\<rparr>
          in Inr (updated,
                  s\<lparr>orgMembers := AList.update (member_key orgId userId) updated (orgMembers s)\<rparr>))"

definition removeOrgMember :: "string \<Rightarrow> string \<Rightarrow> MemStorage \<Rightarrow> MemStorage" where
  "removeOrgMember orgId userId s =
     s\<lparr>orgMembers := AList.delete (member_key orgId userId) (orgMembers s)\<rparr>"

subsection \<open>API keys\<close>

definition createApiKey ::
  "string \<Rightarrow> date \<Rightarrow> InsertApiKeyHashed \<Rightarrow> MemStorage \<Rightarrow> ApiKey \<times> MemStorage" where
  "createApiKey uuid now apiKey s =
     (let key = \<lparr> apikey_id = uuid, apikey_orgId = ia_orgId apiKey,
                  apikey_name = ia_name apiKey, apikey_keyHash = ia_keyHash apiKey,
                  apikey_keyPreview = ia_keyPreview apiKey, apikey_lastUsedAt = None,
                  apikey_createdBy = ia_createdBy apiKey, apikey_createdAt = now \<rparr>
      in (key, s\<lparr>apiKeys := AList.update uuid key (apiKeys s)\<rparr>))"

definition getApiKeys :: "string \<Rightarrow> MemStorage \<Rightarrow> ApiKey list" where
  "getApiKeys orgId s = filter (\<lambda>key. apikey_orgId key = orgId) (values_of (apiKeys s))"

definition deleteApiKey :: "string \<Rightarrow> string \<Rightarrow> MemStorage \<Rightarrow> MemStorage" where
  "deleteApiKey ident orgId s =
     (case map_of (apiKeys s) ident of
        Some k \<Rightarrow>
          if apikey_orgId k = orgId then s\<lparr>apiKeys := AList.delete ident (apiKeys s)\<rparr>
          else s
      | None \<Rightarrow> s)"

subsection \<open>Subscriptions and audit logs\<close>


definition createAuditLog ::
  "date \<Rightarrow> InsertAuditLog \<Rightarrow> MemStorage \<Rightarrow> AuditLog \<times> MemStorage" where
  "createAuditLog now insertLog s =
     (let log = \<lparr> log_id = length (auditLogs s) + 1, log_orgId = il_orgId insertLog,
                  log_actorId = or_null (il_actorId insertLog),
                  log_action = il_action insertLog, log_entity = il_entity insertLog,
                  log_entityId = or_null (il_entityId insertLog),
                  log_metadata = or_else (il_metadata insertLog) (JObj []),
                  log_createdAt = now \<rparr>
      in (log, s\<lparr>auditLogs := auditLogs s @ [log]\<rparr>))"

subsection \<open>Pipelines, stages, leads, comments\<close>

definition getPipeline :: "string \<Rightarrow> string \<Rightarrow> MemStorage \<Rightarrow> Pipeline option" where
  "getPipeline ident orgId s =
     (case map_of (pipelines s) ident of
        Some p \<Rightarrow> if pipeline_orgId p = orgId then Some p else None
      | None \<Rightarrow> None)"

definition createStage ::
  "string \<Rightarrow> date \<Rightarrow> InsertStage \<Rightarrow> MemStorage \<Rightarrow> Stage \<times> MemStorage" where
  "createStage uuid now insertStage s =
     (let stage = \<lparr> stage_id = uuid, stage_orgId = is_orgId insertStage,
                    stage_pipelineId = is_pipelineId insertStage,
                    stage_name = is_name insertStage, stage_order = is_order insertStage,
                    stage_createdAt = now \<rparr>
      in (stage, s\<lparr>stages := AList.update uuid stage (stages s)\<rparr>))"

definition createLead ::
  "string \<Rightarrow> date \<Rightarrow> InsertLead \<Rightarrow> MemStorage \<Rightarrow> Lead \<times> MemStorage" where
  "createLead uuid now insertLead s =
     (let lead = \<lparr> lead_id = uuid, lead_orgId = ile_orgId insertLead,
                   lead_stageId = ile_stageId insertLead, lead_name = ile_name insertLead,
                   lead_email = ile_email insertLead, lead_source = ile_source insertLead,
                   lead_notes = ile_notes insertLead,
                   lead_airtableRecordId = ile_airtableRecordId insertLead,
                   lead_createdAt = now, lead_updatedAt = now \<rparr>
      in (lead, s\<lparr>leads := AList.update uuid lead (leads s)\<rparr>))"

definition getStages :: "string \<Rightarrow> string \<Rightarrow> MemStorage \<Rightarrow> Stage list" where
  "getStages pipelineId orgId s =
     sort_key stage_order
       (filter (\<lambda>st. stage_pipelineId st = pipelineId \<and> stage_orgId st = orgId)
          (values_of (stages s)))"

definition getStage :: "string \<Rightarrow> string \<Rightarrow> MemStorage \<Rightarrow> Stage option" where
  "getStage ident orgId s =
     (case map_of (stages s) ident of
        Some st \<Rightarrow> if stage_orgId st = orgId then Some st else None
      | None \<Rightarrow> None)"

definition getLeads :: "string \<Rightarrow> string \<Rightarrow> MemStorage \<Rightarrow> Lead list" where
  "getLeads stageId orgId s =
     sort_key (\<lambda>l. - lead_updatedAt l)
       (filter (\<lambda>l. lead_stageId l = stageId \<and> lead_orgId l = orgId)
          (values_of (leads s)))"

definition getLead :: "string \<Rightarrow> string \<Rightarrow> MemStorage \<Rightarrow> Lead option" where
  "getLead ident orgId s =
     (case map_of (leads s) ident of
        Some l \<Rightarrow> if lead_orgId l = orgId then Some l else None
      | None \<Rightarrow> None)"

text \<open>
  \<open>getLeadComments\<close> joins each comment with its author; the deletions below read
  only the comment's own fields, so the join is kept apart in \<open>comment_user\<close>.
\<close>

definition comment_user :: "MemStorage \<Rightarrow> LeadComment \<Rightarrow> string \<times> string" where
  "comment_user s c =
     (case map_of (users s) (comment_userId c) of
        Some u \<Rightarrow> (user_id u, if user_name u = [] then ''Unknown User'' else user_name u)
      | None \<Rightarrow> ([], ''Unknown User''))"

definition getLeadComments ::
  "string \<Rightarrow> string \<Rightarrow> MemStorage \<Rightarrow> (LeadComment \<times> string \<times> string) list" where
  "getLeadComments leadId orgId s =
     map (\<lambda>c. (c, comment_user s c))
       (sort_key comment_createdAt
          (filter (\<lambda>c. comment_leadId c = leadId \<and> comment_orgId c = orgId)
             (values_of (leadComments s))))"

definition deleteLeadComment :: "string \<Rightarrow> string \<Rightarrow> MemStorage \<Rightarrow> MemStorage" where
  "deleteLeadComment ident orgId s =
     (case map_of (leadComments s) ident of
        Some c \<Rightarrow>
          if comment_orgId c = orgId
          then s\<lparr>leadComments := AList.delete ident (leadComments s)\<rparr>
          else s
      | None \<Rightarrow> s)"

definition deleteLead :: "string \<Rightarrow> string \<Rightarrow> MemStorage \<Rightarrow> MemStorage" where
  "deleteLead ident orgId s =
     (case getLead ident orgId s of
        None \<Rightarrow> s
      | Some l \<Rightarrow>
          let s1 = fold (\<lambda>c. deleteLeadComment (comment_id (fst c)) orgId)
                     (getLeadComments ident orgId s) s
          in s1\<lparr>leads := AList.delete ident (leads s1)\<rparr>)"

definition deleteStage :: "string \<Rightarrow> string \<Rightarrow> MemStorage \<Rightarrow> MemStorage" where
  "deleteStage ident orgId s =
     (case getStage ident orgId s of
        None \<Rightarrow> s
      | Some st \<Rightarrow>
          let s1 = fold (\<lambda>l. deleteLead (lead_id l) orgId) (getLeads ident orgId s) s
          in s1\<lparr>stages := AList.delete ident (stages s1)\<rparr>)"

definition deletePipeline :: "string \<Rightarrow> string \<Rightarrow> MemStorage \<Rightarrow> MemStorage" where
  "deletePipeline ident orgId s =
     (case getPipeline ident orgId s of
        None \<Rightarrow> s
      | Some p \<Rightarrow>
          let s1 = fold (\<lambda>st. deleteStage (stage_id st) orgId) (getStages ident orgId s) s
          in s1\<lparr>pipelines := AList.delete ident (pipelines s1)\<rparr>)"



text \<open>
  An operation that throws before it writes returns \<open>Inl\<close> of the error. A loop that
  may throw after some writes returns the error (or \<open>Inr ()\<close>) together with the store
  as the writes left it.
\<close>

definition updateStage ::
  "string \<Rightarrow> string \<Rightarrow> PartialStage \<Rightarrow> MemStorage \<Rightarrow> error + Stage \<times> MemStorage" where
  "updateStage ident orgId updates s =
     (case getStage ident orgId s of
        None \<Rightarrow> Inl (Error ''Stage not found'')
      | Some stage \<Rightarrow>
          let updated = merge_stage stage updates
          in Inr (updated, s\<lparr>stages := AList.update ident updated (stages s)\<rparr>))"

fun reorderStages ::
  "string \<Rightarrow> string \<Rightarrow> (string \<times> int) list \<Rightarrow> MemStorage \<Rightarrow> (error + unit) \<times> MemStorage" where
  "reorderStages pipelineId orgId [] s = (Inr (), s)"
| "reorderStages pipelineId orgId ((ident, ord) # rest) s =
     (case updateStage ident orgId (no_stage_updates\<lparr>ps_order := Some ord\<rparr>) s of
        Inl e \<Rightarrow> (Inl e, s)
      | Inr (_, s') \<Rightarrow> reorderStages pipelineId orgId rest s')"

definition updateLead ::
  "date \<Rightarrow> string \<Rightarrow> string \<Rightarrow> PartialLead \<Rightarrow> MemStorage \<Rightarrow> error + Lead \<times> MemStorage" where
  "updateLead now ident orgId updates s =
     (case getLead ident orgId s of
        None \<Rightarrow> Inl (Error ''Lead not found'')
      | Some lead \<Rightarrow>
          let updated = (merge_lead lead updates)\<lparr>lead_updatedAt := now\<rparr>
          in Inr (updated, s\<lparr>leads := AList.update ident updated (leads s)\<rparr>))"

definition moveLeadToStage ::
  "date \<Rightarrow> string \<Rightarrow> string \<Rightarrow> string \<Rightarrow> MemStorage \<Rightarrow> error + Lead \<times> MemStorage" where
  "moveLeadToStage now leadId stageId orgId s =
     updateLead now leadId orgId (no_lead_updates\<lparr>pl_stageId := Some stageId\<rparr>) s"

definition createLeadComment ::
  "string \<Rightarrow> date \<Rightarrow> InsertLeadComment \<Rightarrow> MemStorage \<Rightarrow> LeadComment \<times> MemStorage" where
  "createLeadComment uuid now insertComment s =
     (let comment = \<lparr> comment_id = uuid, comment_orgId = ic_orgId insertComment,
                      comment_leadId = ic_leadId insertComment,
                      comment_body = ic_body insertComment,
                      comment_userId = ic_userId insertComment,
                      comment_mentionedUserIds = ic_mentionedUserIds insertComment,
                      comment_createdAt = now \<rparr>
      in (comment, s\<lparr>leadComments := AList.update uuid comment (leadComments s)\<rparr>))"

section \<open>Plan limits (PLAN_LIMITS, at the end of the schema)\<close>






section \<open>HTTP handlers (registerRoutes, in replit.md after the schema)\<close>

text \<open>
  A handler is a function of the session's user id, the path parameters, the body and
  the store; it returns the response and the store it leaves. \<open>res.json\<close> without
  \<open>res.status\<close> answers 200. The zod validators (\<open>insert...Schema.parse\<close>) are
  library code: a handler takes the validator it calls as a parameter, \<open>Inl\<close> the error
  it throws and \<open>Inr\<close> the parsed data. Body fields read without validation are taken
  at the type the handler uses them at.
\<close>

record AuthUser =
  au_id :: string
  au_email :: string
  au_name :: string

datatype payload =
    ErrorBody string
  | UserBody AuthUser
  | MemberBody OrgMember
  | ApiKeysBody "ApiKey list"
  | ApiKeyCreatedBody ApiKey string
  | PipelineBody Pipeline
  | LeadBody Lead
  | CommentBody LeadComment

record response =
  res_status :: nat
  res_body :: payload

definition json_error :: "nat \<Rightarrow> string \<Rightarrow> response" where
  "json_error code msg = \<lparr> res_status = code, res_body = ErrorBody msg \<rparr>"

definition json_ok :: "payload \<Rightarrow> response" where
  "json_ok b = \<lparr> res_status = 200, res_body = b \<rparr>"

text \<open>
  The middlewares \<open>requireAuth\<close> and \<open>requireOrgAccess\<close>, in this order, in front of
  every organization route; the handler proper receives the user id and the caller's
  membership (\<open>req.orgMember\<close>).
\<close>

definition with_org_access ::
  "string option \<Rightarrow> string \<Rightarrow> MemStorage \<Rightarrow> (string \<Rightarrow> OrgMember \<Rightarrow> response \<times> MemStorage)
     \<Rightarrow> response \<times> MemStorage" where
  "with_org_access sessionUserId organizationId s handler =
     (case or_null sessionUserId of
        None \<Rightarrow> (json_error 401 ''Authentication required'', s)
      | Some userId \<Rightarrow>
          if organizationId = [] then (json_error 401 ''Organization access required'', s)
          else (case getOrgMember organizationId userId s of
                  None \<Rightarrow> (json_error 403 ''Access denied to organization'', s)
                | Some member \<Rightarrow> handler userId member))"

definition may_write :: "OrgMember \<Rightarrow> bool" where
  "may_write member = (member_role member \<in> set [''admin'', ''editor''])"

subsection \<open>POST /api/auth/signup\<close>



subsection \<open>POST /api/organizations/:organizationId/members\<close>

definition post_members ::
  "date \<Rightarrow> string option \<Rightarrow> string \<Rightarrow> string \<Rightarrow> string \<Rightarrow> MemStorage \<Rightarrow> response \<times> MemStorage" where
  "post_members now sessionUserId organizationId email role s =
     with_org_access sessionUserId organizationId s (\<lambda>userId orgMember.
       if \<not> may_write orgMember then (json_error 403 ''Insufficient permissions'', s)
       else (case getUserByEmail email s of
               None \<Rightarrow> (json_error 404 ''User not found'', s)
             | Some invitedUser \<Rightarrow>
                 (case getOrgMember organizationId (user_id invitedUser) s of
                    Some existing \<Rightarrow> (json_error 400 ''User is already a member'', s)
                  | None \<Rightarrow>
                      let (member, s1) =
                            addOrgMember now
                              \<lparr> im_orgId = organizationId, im_userId = user_id invitedUser,
                                im_role = role, im_invitedBy = Some userId,
                                im_acceptedAt = Some now \<rparr> s;
                          s2 = snd (createAuditLog now
                                 \<lparr> il_orgId = organizationId, il_actorId = Some userId,
                                   il_action = ''invite'', il_entity = ''member'',
                                   il_entityId = Some (user_id invitedUser),
                                   il_metadata =
                                     Some (JObj [(''email'', JStr email), (''role'', JStr role)]) \<rparr>
                                 s1)
                      in (json_ok (MemberBody member), s2))))"

subsection \<open>GET and POST /api/organizations/:organizationId/api-keys\<close>

definition get_api_keys :: "string option \<Rightarrow> string \<Rightarrow> MemStorage \<Rightarrow> response \<times> MemStorage" where
  "get_api_keys sessionUserId organizationId s =
     with_org_access sessionUserId organizationId s (\<lambda>userId orgMember.
       (json_ok (ApiKeysBody (getApiKeys organizationId s)), s))"

text \<open>\<open>Buffer.toString("hex")\<close>: two lower-case hexadecimal digits for each byte.\<close>

definition hex_digit :: "nat \<Rightarrow> char" where
  "hex_digit n = ''0123456789abcdef'' ! (n mod 16)"

definition to_hex :: "8 word list \<Rightarrow> string" where
  "to_hex bs = concat (map (\<lambda>b. [hex_digit (unat b div 16), hex_digit (unat b mod 16)]) bs)"

text \<open>
  \<open>randomBytes24\<close> is what \<open>randomBytes(24)\<close> returns and \<open>sha256_hex\<close> is
  \<open>createHash("sha256").update(_).digest("hex")\<close>.
\<close>

definition post_api_keys ::
  "(string \<Rightarrow> string) \<Rightarrow> ((string \<times> json) list \<Rightarrow> error + InsertApiKey) \<Rightarrow> 8 word list
     \<Rightarrow> string \<Rightarrow> date \<Rightarrow> string option \<Rightarrow> string \<Rightarrow> (string \<times> json) list \<Rightarrow> MemStorage
     \<Rightarrow> response \<times> MemStorage" where
  "post_api_keys sha256_hex parseApiKey randomBytes24 uuid now sessionUserId organizationId body s =
     with_org_access sessionUserId organizationId s (\<lambda>userId orgMember.
       case parseApiKey body of
         Inl (Error msg) \<Rightarrow> (json_error 400 msg, s)
       | Inr parsed \<Rightarrow>
           if \<not> may_write orgMember then (json_error 403 ''Insufficient permissions'', s)
           else
             let keyValue = ''sk_'' @ to_hex randomBytes24;
                 keyHash = sha256_hex keyValue;
                 keyPreview = take 12 keyValue @ replicate 20 (CHR ''*'');
                 (apiKey, s1) =
                   createApiKey uuid now
                     \<lparr> ia_orgId = organizationId, ia_name = ia_name parsed,
                       ia_createdBy = userId, ia_keyHash = keyHash,
                       ia_keyPreview = keyPreview \<rparr> s;
                 s2 = snd (createAuditLog now
                        \<lparr> il_orgId = organizationId, il_actorId = Some userId,
                          il_action = ''create'', il_entity = ''api_key'',
                          il_entityId = Some (apikey_id apiKey),
                          il_metadata = Some (JObj [(''name'', JStr (ia_name parsed))]) \<rparr> s1)
             in (json_ok (ApiKeyCreatedBody apiKey keyValue), s2))"

subsection \<open>POST /api/organizations/:organizationId/pipelines\<close>




subsection \<open>POST /api/organizations/:organizationId/leads/:leadId/move\<close>

definition post_lead_move ::
  "date \<Rightarrow> string option \<Rightarrow> string \<Rightarrow> string \<Rightarrow> string \<Rightarrow> MemStorage \<Rightarrow> response \<times> MemStorage" where
  "post_lead_move now sessionUserId organizationId leadId stageId s =
     with_org_access sessionUserId organizationId s (\<lambda>userId orgMember.
       if \<not> may_write orgMember then (json_error 403 ''Insufficient permissions'', s)
       else (case getStage stageId organizationId s of
               None \<Rightarrow> (json_error 404 ''Stage not found'', s)
             | Some stage \<Rightarrow>
                 (case moveLeadToStage now leadId stageId organizationId s of
                    Inl (Error msg) \<Rightarrow> (json_error 500 msg, s)
                  | Inr (lead, s1) \<Rightarrow>
                      let s2 = snd (createAuditLog now
                                 \<lparr> il_orgId = organizationId, il_actorId = Some userId,
                                   il_action = ''move'', il_entity = ''lead'',
                                   il_entityId = Some (lead_id lead),
                                   il_metadata =
                                     Some (JObj [(''newStageId'', JStr stageId),
                                                 (''stageName'', JStr (stage_name stage))]) \<rparr>
                                 s1)
                      in (json_ok (LeadBody lead), s2))))"

subsection \<open>POST /api/organizations/:organizationId/leads/:leadId/comments\<close>











section \<open>Well-formed stores\<close>

text \<open>
  A \<open>Map\<close> has one entry per key. Every \<open>create...\<close> stores a record under the id it
  gives the record, and \<open>addOrgMember\<close> under the key made of the two ids.
\<close>

definition keyed_by :: "('v \<Rightarrow> string) \<Rightarrow> (string \<times> 'v) list \<Rightarrow> bool" where
  "keyed_by f m = (distinct (map fst m) \<and> (\<forall>(k, v) \<in> set m. f v = k))"

definition member_key_of :: "OrgMember \<Rightarrow> string" where
  "member_key_of m = member_key (member_orgId m) (member_userId m)"



definition absent_or_foreign ::
  "('v \<Rightarrow> string) \<Rightarrow> (string \<times> 'v) list \<Rightarrow> string \<Rightarrow> string \<Rightarrow> bool" where
  "absent_or_foreign org_of m ident orgId =
     (case map_of m ident of None \<Rightarrow> True | Some v \<Rightarrow> org_of v \<noteq> orgId)"

section \<open>A sample store\<close>

text \<open>
  Two organizations. \<open>orgA\<close> has the admin Alice Smith, the editor Bob and the viewer
  Carol, one pipeline with two stages, a lead in each stage and a comment on each lead,
  and one API key. \<open>orgB\<close> has the admin Dave, one pipeline and one stage.
\<close>

definition sample_user :: "string \<Rightarrow> string \<Rightarrow> string \<Rightarrow> User" where
  "sample_user ident email name =
     \<lparr> user_id = ident, user_email = email, user_passwordHash = ''$2b$10$hash'',
       user_name = name, user_stripeCustomerId = None, user_stripeSubscriptionId = None,
       user_createdAt = 1000 \<rparr>"

definition sample_member :: "string \<Rightarrow> string \<Rightarrow> string \<Rightarrow> OrgMember" where
  "sample_member orgId userId role =
     \<lparr> member_orgId = orgId, member_userId = userId, member_role = role,
       member_invitedBy = Some ''u-alice'', member_invitedAt = 2000,
       member_acceptedAt = Some 2000, member_createdAt = 2000 \<rparr>"

definition sample_org :: "string \<Rightarrow> string \<Rightarrow> string \<Rightarrow> Organization" where
  "sample_org ident name ownerId =
     \<lparr> org_id = ident, org_name = name, org_ownerId = ownerId, org_stripeCustomerId = None,
       org_stripeSubscriptionId = None, org_plan = ''free'', org_trialEnd = None,
       org_createdAt = 2000 \<rparr>"

definition sample_subscription :: "string \<Rightarrow> Subscription" where
  "sample_subscription orgId =
     \<lparr> sub_orgId = orgId, sub_plan = ''free'', sub_status = ''active'', sub_periodEnd = None,
       sub_metered = JObj [], sub_updatedAt = 2000 \<rparr>"

definition sample_stage :: "string \<Rightarrow> string \<Rightarrow> string \<Rightarrow> int \<Rightarrow> Stage" where
  "sample_stage ident orgId pipelineId ord =
     \<lparr> stage_id = ident, stage_orgId = orgId, stage_pipelineId = pipelineId,
       stage_name = ''Stage'', stage_order = ord, stage_createdAt = 3000 \<rparr>"

definition sample_lead :: "string \<Rightarrow> string \<Rightarrow> string \<Rightarrow> Lead" where
  "sample_lead ident orgId stageId =
     \<lparr> lead_id = ident, lead_orgId = orgId, lead_stageId = stageId, lead_name = ''Lead'',
       lead_email = None, lead_source = None, lead_notes = None,
       lead_airtableRecordId = None, lead_createdAt = 4000, lead_updatedAt = 4000 \<rparr>"

definition sample_comment :: "string \<Rightarrow> string \<Rightarrow> string \<Rightarrow> LeadComment" where
  "sample_comment ident orgId leadId =
     \<lparr> comment_id = ident, comment_orgId = orgId, comment_leadId = leadId,
       comment_body = ''hello'', comment_userId = ''u-alice'',
       comment_mentionedUserIds = None, comment_createdAt = 5000 \<rparr>"

definition sample_store :: MemStorage where
  "sample_store =
     \<lparr> users =
         [(''u-alice'', sample_user ''u-alice'' ''alice@x.com'' ''Alice Smith''),
          (''u-bob'', sample_user ''u-bob'' ''bob@x.com'' ''Bob''),
          (''u-carol'', sample_user ''u-carol'' ''carol@x.com'' ''Carol''),
          (''u-dave'', sample_user ''u-dave'' ''dave@x.com'' ''Dave'')],
       organizations =
         [(''orgA'', sample_org ''orgA'' ''A'' ''u-alice''),
          (''orgB'', sample_org ''orgB'' ''B'' ''u-dave'')],
       orgMembers =
         [(''orgA-u-alice'', sample_member ''orgA'' ''u-alice'' ''admin''),
          (''orgA-u-bob'', sample_member ''orgA'' ''u-bob'' ''editor''),
          (''orgA-u-carol'', sample_member ''orgA'' ''u-carol'' ''viewer''),
          (''orgB-u-dave'', sample_member ''orgB'' ''u-dave'' ''admin'')],
       apiKeys =
         [(''k1'', \<lparr> apikey_id = ''k1'', apikey_orgId = ''orgA'', apikey_name = ''CI'',
                     apikey_keyHash = ''9f86d081'', apikey_keyPreview = ''sk_0123456789********************'',
                     apikey_lastUsedAt = None, apikey_createdBy = ''u-alice'',
                     apikey_createdAt = 2500 \<rparr>)],
       settings = [],
       subscriptions =
         [(''orgA'', sample_subscription ''orgA''), (''orgB'', sample_subscription ''orgB'')],
       auditLogs = [],
       pipelines =
         [(''p1'', \<lparr> pipeline_id = ''p1'', pipeline_orgId = ''orgA'', pipeline_name = ''Sales'',
                     pipeline_createdAt = 3000 \<rparr>),
          (''pB'', \<lparr> pipeline_id = ''pB'', pipeline_orgId = ''orgB'', pipeline_name = ''Other'',
                     pipeline_createdAt = 3000 \<rparr>)],
       stages =
         [(''s1'', sample_stage ''s1'' ''orgA'' ''p1'' 0),
          (''s2'', sample_stage ''s2'' ''orgA'' ''p1'' 1),
          (''sB'', sample_stage ''sB'' ''orgB'' ''pB'' 0)],
       leads =
         [(''l1'', sample_lead ''l1'' ''orgA'' ''s1''),
          (''l2'', sample_lead ''l2'' ''orgA'' ''s2'')],
       leadComments =
         [(''c1'', sample_comment ''c1'' ''orgA'' ''l1''),
          (''c2'', sample_comment ''c2'' ''orgA'' ''l2'')] \<rparr>"







definition sample_parseApiKey :: "(string \<times> json) list \<Rightarrow> error + InsertApiKey" where
  "sample_parseApiKey obj =
     (case (map_of obj ''orgId'', map_of obj ''name'', map_of obj ''createdBy'') of
        (Some (JStr orgId), Some (JStr name), Some (JStr createdBy)) \<Rightarrow>
          Inr \<lparr> ia_orgId = orgId, ia_name = name, ia_createdBy = createdBy \<rparr>
      | _ \<Rightarrow> Inl (Error ''Required''))"

text \<open>A stand-in for the digest in the sample requests: it keeps nothing of its input.\<close>

definition sample_digest :: "string \<Rightarrow> string" where
  "sample_digest keyValue = ''e3b0c44298fc1c14''"

definition sample_bytes :: "8 word list" where
  "sample_bytes = replicate 23 0xAB @ [0x01]"


section \<open>Facts used throughout\<close>

lemma with_org_access_member:
  assumes "or_null sessionUserId = Some userId" and "organizationId \<noteq> []"
    and "getOrgMember organizationId userId s = Some caller"
  shows "with_org_access sessionUserId organizationId s handler = handler userId caller"
  using assms by (simp add: with_org_access_def)

lemma value_in_update: "v \<in> set (values_of (AList.update k v m))"
  by (induction m) (auto simp: values_of_def)

lemma set_update_cases:
  "(a, b) \<in> set (AList.update k v m) \<Longrightarrow> (a, b) = (k, v) \<or> (a, b) \<in> set m"
  by (induction m) (auto split: if_splits)

lemma keyed_by_update:
  "keyed_by f m \<Longrightarrow> f v = k \<Longrightarrow> keyed_by f (AList.update k v m)"
  unfolding keyed_by_def
  by (auto simp: distinct_update dest!: set_update_cases)

lemma orgMembers_createOrganization:
  "orgMembers (snd (createOrganization uuid now insertOrg ownerId s)) =
     AList.update (member_key uuid ownerId)
       \<lparr> member_orgId = uuid, member_userId = ownerId, member_role = ''admin'',
         member_invitedBy = or_null (Some ownerId), member_invitedAt = now,
         member_acceptedAt = Some now, member_createdAt = now \<rparr>
       (orgMembers s)"
  by (simp add: createOrganization_def addOrgMember_def Let_def)

section \<open>Deleting what is not there\<close>

text \<open>
  C10. Deleting a pipeline, stage, lead, API key or comment whose id is not in the store,
  or whose record carries another organization id (\<open>absent_or_foreign\<close>), returns the
  store as it was: every map is unchanged. The five operations are total functions into
  the store: none of them has an error result.
\<close>

theorem delete_absent_or_foreign_unchanged:
  "(absent_or_foreign pipeline_orgId (pipelines s) ident orgId
      \<longrightarrow> deletePipeline ident orgId s = s) \<and>
   (absent_or_foreign stage_orgId (stages s) ident orgId
      \<longrightarrow> deleteStage ident orgId s = s) \<and>
   (absent_or_foreign lead_orgId (leads s) ident orgId
      \<longrightarrow> deleteLead ident orgId s = s) \<and>
   (absent_or_foreign apikey_orgId (apiKeys s) ident orgId
      \<longrightarrow> deleteApiKey ident orgId s = s) \<and>
   (absent_or_foreign comment_orgId (leadComments s) ident orgId
      \<longrightarrow> deleteLeadComment ident orgId s = s)"
  by (simp add: absent_or_foreign_def deletePipeline_def deleteStage_def deleteLead_def
      deleteApiKey_def deleteLeadComment_def getPipeline_def getStage_def getLead_def
      split: option.splits)

theorem delete_absent_or_foreign_unchanged_witness:
  "absent_or_foreign pipeline_orgId (pipelines sample_store) ''p1'' ''orgB'' \<and>
   deletePipeline ''p1'' ''orgB'' sample_store = sample_store \<and>
   absent_or_foreign stage_orgId (stages sample_store) ''s1'' ''orgB'' \<and>
   deleteStage ''s1'' ''orgB'' sample_store = sample_store \<and>
   absent_or_foreign lead_orgId (leads sample_store) ''l1'' ''orgB'' \<and>
   deleteLead ''l1'' ''orgB'' sample_store = sample_store \<and>
   absent_or_foreign apikey_orgId (apiKeys sample_store) ''k1'' ''orgB'' \<and>
   deleteApiKey ''k1'' ''orgB'' sample_store = sample_store \<and>
   absent_or_foreign comment_orgId (leadComments sample_store) ''nope'' ''orgA'' \<and>
   deleteLeadComment ''nope'' ''orgA'' sample_store = sample_store"
proof -
  have h1: "absent_or_foreign pipeline_orgId (pipelines sample_store) ''p1'' ''orgB''"
    by (simp add: absent_or_foreign_def sample_store_def)
  have h2: "absent_or_foreign stage_orgId (stages sample_store) ''s1'' ''orgB''"
    by (simp add: absent_or_foreign_def sample_store_def sample_stage_def)
  have h3: "absent_or_foreign lead_orgId (leads sample_store) ''l1'' ''orgB''"
    by (simp add: absent_or_foreign_def sample_store_def sample_lead_def)
  have h4: "absent_or_foreign apikey_orgId (apiKeys sample_store) ''k1'' ''orgB''"
    by (simp add: absent_or_foreign_def sample_store_def)
  have h5: "absent_or_foreign comment_orgId (leadComments sample_store) ''nope'' ''orgA''"
    by (simp add: absent_or_foreign_def sample_store_def)
  note T = delete_absent_or_foreign_unchanged
  from h1 T [of sample_store "''p1''" "''orgB''"]
  have c1: "deletePipeline ''p1'' ''orgB'' sample_store = sample_store" by (elim conjE) (rule mp)
  from h2 T [of sample_store "''s1''" "''orgB''"]
  have c2: "deleteStage ''s1'' ''orgB'' sample_store = sample_store" by (elim conjE) (rule mp)
  from h3 T [of sample_store "''l1''" "''orgB''"]
  have c3: "deleteLead ''l1'' ''orgB'' sample_store = sample_store" by (elim conjE) (rule mp)
  from h4 T [of sample_store "''k1''" "''orgB''"]
  have c4: "deleteApiKey ''k1'' ''orgB'' sample_store = sample_store" by (elim conjE) (rule mp)
  from h5 T [of sample_store "''nope''" "''orgA''"]
  have c5: "deleteLeadComment ''nope'' ''orgA'' sample_store = sample_store" by (elim conjE) (rule mp)
  from h1 h2 h3 h4 h5 c1 c2 c3 c4 c5 show ?thesis by (intro conjI)
qed

section \<open>Reordering stages\<close>

lemma merge_stage_order:
  "merge_stage st (no_stage_updates\<lparr>ps_order := Some n\<rparr>) = st\<lparr>stage_order := n\<rparr>"
  by (simp add: merge_stage_def no_stage_updates_def or_else_def)

lemma getStage_after_updateStage:
  assumes "updateStage i orgId (no_stage_updates\<lparr>ps_order := Some n\<rparr>) s = Inr (st, s')"
  shows "getStage j orgId s' =
           (if j = i then map_option (\<lambda>x. x\<lparr>stage_order := n\<rparr>) (getStage i orgId s)
            else getStage j orgId s)"
proof (cases "getStage i orgId s")
  case None
  with assms show ?thesis by (simp add: updateStage_def)
next
  case (Some x)
  then have x: "map_of (stages s) i = Some x" "stage_orgId x = orgId"
    by (auto simp: getStage_def split: option.splits if_splits)
  from assms Some have s': "s' = s\<lparr>stages := AList.update i (x\<lparr>stage_order := n\<rparr>) (stages s)\<rparr>"
    by (auto simp add: updateStage_def merge_stage_order Let_def)
  show ?thesis
    using x Some by (simp add: s' getStage_def AList.update_conv')
qed

lemma updateStage_resolves:
  "getStage i orgId s \<noteq> None \<Longrightarrow>
     \<exists>st s'. updateStage i orgId u s = Inr (st, s')"
  by (auto simp: updateStage_def Let_def split: option.splits)

lemma updateStage_fails:
  "getStage i orgId s = None \<Longrightarrow> updateStage i orgId u s = Inl (Error ''Stage not found'')"
  by (simp add: updateStage_def)

lemma reorderStages_prefix:
  "\<forall>(i, n) \<in> set pre. getStage i orgId s \<noteq> None \<Longrightarrow>
     fst (reorderStages p orgId pre s) = Inr () \<and>
     reorderStages p orgId (pre @ rest) s =
       reorderStages p orgId rest (snd (reorderStages p orgId pre s)) \<and>
     (\<forall>j. getStage j orgId (snd (reorderStages p orgId pre s)) =
          (case map_of (rev pre) j of
             None \<Rightarrow> getStage j orgId s
           | Some n \<Rightarrow> map_option (\<lambda>x. x\<lparr>stage_order := n\<rparr>) (getStage j orgId s)))"
proof (induction pre arbitrary: s)
  case Nil
  then show ?case by simp
next
  case (Cons a pre)
  obtain i n where a: "a = (i, n)" by (cases a)
  from Cons.prems a have "getStage i orgId s \<noteq> None" by simp
  then obtain st s1 where
    u: "updateStage i orgId (no_stage_updates\<lparr>ps_order := Some n\<rparr>) s = Inr (st, s1)"
    using updateStage_resolves by blast
  have g: "\<And>j. getStage j orgId s1 =
           (if j = i then map_option (\<lambda>x. x\<lparr>stage_order := n\<rparr>) (getStage i orgId s)
            else getStage j orgId s)"
    using getStage_after_updateStage [OF u] by simp
  have "\<forall>(j, m) \<in> set pre. getStage j orgId s1 \<noteq> None"
    using Cons.prems a by (auto simp: g)
  from Cons.IH [OF this] show ?case
    using u a by (auto simp: g map_add_def map_of_append option.map_comp comp_def split: option.splits)
qed

text \<open>
  C9. \<open>reorderStages\<close> is not atomic. When every id of \<open>pre\<close> resolves to a stage of
  the organization and the next id does not, the call throws \<open>Stage not found\<close> and
  leaves the store as the updates of \<open>pre\<close>, applied in list order, made it: a stage
  named in \<open>pre\<close> has the order of its last entry there, every other stage is as it was,
  and no entry after the failing one is applied.
\<close>

theorem reorderStages_not_atomic:
  assumes "\<forall>(i, n) \<in> set pre. getStage i orgId s \<noteq> None"
    and "getStage ident orgId s = None"
  shows "let r = reorderStages pipelineId orgId (pre @ (ident, ord) # post) s
         in fst r = Inl (Error ''Stage not found'') \<and>
            snd r = snd (reorderStages pipelineId orgId pre s) \<and>
            (\<forall>j n. map_of (rev pre) j = Some n
                \<longrightarrow> map_option stage_order (getStage j orgId (snd r)) = Some n) \<and>
            (\<forall>j. j \<notin> fst ` set pre \<longrightarrow> getStage j orgId (snd r) = getStage j orgId s)"
proof -
  let ?s1 = "snd (reorderStages pipelineId orgId pre s)"
  note P = reorderStages_prefix [OF assms(1), of pipelineId "(ident, ord) # post"]
  have notin: "map_of (rev pre) ident = None"
  proof (rule ccontr)
    assume "map_of (rev pre) ident \<noteq> None"
    then obtain n where "(ident, n) \<in> set pre"
      by (auto dest: map_of_SomeD)
    with assms show False by auto
  qed
  from P notin assms(2) have "getStage ident orgId ?s1 = None" by simp
  then have fail: "reorderStages pipelineId orgId ((ident, ord) # post) ?s1
                     = (Inl (Error ''Stage not found''), ?s1)"
    by (simp add: updateStage_fails)
  have persisted: "map_option stage_order (getStage j orgId ?s1) = Some n"
    if "map_of (rev pre) j = Some n" for j n
  proof -
    from that have "(j, n) \<in> set pre" by (auto dest: map_of_SomeD)
    with assms(1) obtain x where "getStage j orgId s = Some x" by auto
    with P that show ?thesis by simp
  qed
  have untouched: "getStage j orgId ?s1 = getStage j orgId s" if "j \<notin> fst ` set pre" for j
  proof -
    from that have "map_of (rev pre) j = None"
      by (simp add: map_of_eq_None_iff)
    with P show ?thesis by simp
  qed
  show ?thesis
    using P fail persisted untouched by (simp add: Let_def)
qed

theorem reorderStages_not_atomic_witness:
  "getStage ''s1'' ''orgA'' sample_store = Some (sample_stage ''s1'' ''orgA'' ''p1'' 0) \<and>
   getStage ''nope'' ''orgA'' sample_store = None \<and>
   fst (reorderStages ''p1'' ''orgA'' [(''s1'', 5), (''nope'', 6), (''s2'', 7)] sample_store)
     = Inl (Error ''Stage not found'') \<and>
   map_option stage_order
     (getStage ''s1'' ''orgA''
        (snd (reorderStages ''p1'' ''orgA'' [(''s1'', 5), (''nope'', 6), (''s2'', 7)] sample_store)))
     = Some 5 \<and>
   map_option stage_order (getStage ''s1'' ''orgA'' sample_store) = Some 0"
proof -
  have h1: "\<forall>(i, n) \<in> set [(''s1'', 5::int)]. getStage i ''orgA'' sample_store \<noteq> None"
    by (simp add: getStage_def sample_store_def sample_stage_def)
  have h2: "getStage ''nope'' ''orgA'' sample_store = None"
    by (simp add: getStage_def sample_store_def)
  have h3: "map_option stage_order (getStage ''s1'' ''orgA'' sample_store) = Some 0"
    by (simp add: getStage_def sample_store_def sample_stage_def)
  have h0: "getStage ''s1'' ''orgA'' sample_store = Some (sample_stage ''s1'' ''orgA'' ''p1'' 0)"
    by (simp add: getStage_def sample_store_def sample_stage_def)
  have l: "[(''s1'', 5::int)] @ (''nope'', 6) # [(''s2'', 7)] = [(''s1'', 5), (''nope'', 6), (''s2'', 7)]"
    by simp
  have m: "map_of (rev [(''s1'', 5::int)]) ''s1'' = Some 5" by simp
  note T = reorderStages_not_atomic [OF h1 h2, of "''p1''" 6 "[(''s2'', 7)]", unfolded Let_def l]
  from T have c1: "fst (reorderStages ''p1'' ''orgA'' [(''s1'', 5), (''nope'', 6), (''s2'', 7)] sample_store)
     = Inl (Error ''Stage not found'')" by (elim conjE)
  from T m have c2: "map_option stage_order
     (getStage ''s1'' ''orgA''
        (snd (reorderStages ''p1'' ''orgA'' [(''s1'', 5), (''nope'', 6), (''s2'', 7)] sample_store)))
     = Some 5" by blast
  from h0 h2 h3 c1 c2 show ?thesis by (intro conjI)
qed

section \<open>Creating an organization\<close>

lemma filter_values_update:
  assumes "distinct (map fst m)" and "\<forall>(k', x) \<in> set m. P x \<longrightarrow> k' = k" and "P v"
  shows "filter P (values_of (AList.update k v m)) = [v]"
  using assms
proof (induction m)
  case Nil
  then show ?case by (simp add: values_of_def)
next
  case (Cons a m)
  obtain k' x where a: "a = (k', x)" by (cases a)
  show ?case
  proof (cases "k' = k")
    case True
    have "filter P (map snd m) = []"
    proof -
      have "\<not> P y" if "(j, y) \<in> set m" for j y
      proof
        assume "P y"
        with Cons.prems(2) that have "j = k" by auto
        with that have "k \<in> fst ` set m" by force
        with Cons.prems(1) a True show False by simp
      qed
      then show ?thesis by (auto simp: filter_empty_conv)
    qed
    with True a Cons.prems(3) show ?thesis by (simp add: values_of_def)
  next
    case False
    with Cons.prems(2) a have "\<not> P x" by auto
    moreover have "filter P (values_of (AList.update k v m)) = [v]"
      using Cons.IH Cons.prems by auto
    ultimately show ?thesis using False a by (simp add: values_of_def)
  qed
qed

lemma keyed_by_delete: "keyed_by f m \<Longrightarrow> keyed_by f (AList.delete k m)"
  unfolding keyed_by_def
  by (auto simp: distinct_delete) (auto simp: AList.delete_eq)

lemma keyed_by_empty_storage: "keyed_by member_key_of (orgMembers empty_storage)"
  by (simp add: keyed_by_def empty_storage_def)

lemma orgMembers_addOrgMember:
  "orgMembers (snd (addOrgMember now im s)) =
     AList.update (member_key (im_orgId im) (im_userId im)) (fst (addOrgMember now im s))
       (orgMembers s)"
  by (simp add: addOrgMember_def Let_def)

lemma keyed_by_addOrgMember:
  "keyed_by member_key_of (orgMembers s) \<Longrightarrow>
     keyed_by member_key_of (orgMembers (snd (addOrgMember now im s)))"
  by (simp add: addOrgMember_def Let_def keyed_by_update member_key_of_def)

lemma keyed_by_updateOrgMemberRole:
  "keyed_by member_key_of (orgMembers s) \<Longrightarrow>
     updateOrgMemberRole orgId userId role s = Inr (m, s') \<Longrightarrow>
     keyed_by member_key_of (orgMembers s')"
proof -
  assume k: "keyed_by member_key_of (orgMembers s)"
    and u: "updateOrgMemberRole orgId userId role s = Inr (m, s')"
  from u obtain x where x: "map_of (orgMembers s) (member_key orgId userId) = Some x"
    by (auto simp: updateOrgMemberRole_def split: option.splits)
  then have "(member_key orgId userId, x) \<in> set (orgMembers s)" by (rule map_of_SomeD)
  with k have "member_key_of x = member_key orgId userId" by (auto simp: keyed_by_def)
  then have "member_key_of (x\<lparr>member_role := role\<rparr>) = member_key orgId userId"
    by (simp add: member_key_of_def)
  with k u x show ?thesis
    by (auto simp: updateOrgMemberRole_def Let_def keyed_by_update)
qed

lemma keyed_by_removeOrgMember:
  "keyed_by member_key_of (orgMembers s) \<Longrightarrow>
     keyed_by member_key_of (orgMembers (removeOrgMember orgId userId s))"
  by (simp add: removeOrgMember_def keyed_by_delete)

text \<open>
  C7. After \<open>createOrganization\<close> with owner \<open>ownerId\<close>, the memberships of the store
  whose organization is the new one and whose user is the owner are exactly one; its
  role is \<open>admin\<close> and its \<open>acceptedAt\<close> is set. The store is one whose memberships
  are keyed as \<open>addOrgMember\<close> keys them (\<open>keyed_by member_key_of\<close>), which the empty
  store is and which every operation on memberships keeps (the lemmas above); the new
  store is so again.
\<close>

theorem createOrganization_owner_membership:
  assumes "keyed_by member_key_of (orgMembers s)"
  shows "let (org, s') = createOrganization uuid now insertOrg ownerId s
         in org_id org = uuid \<and> org_ownerId org = ownerId \<and>
            (\<exists>m. filter (\<lambda>m. member_orgId m = org_id org \<and> member_userId m = ownerId)
                    (values_of (orgMembers s')) = [m] \<and>
                 member_role m = ''admin'' \<and> member_acceptedAt m = Some now) \<and>
            keyed_by member_key_of (orgMembers s')"
proof -
  let ?m = "\<lparr> member_orgId = uuid, member_userId = ownerId, member_role = ''admin'',
         member_invitedBy = or_null (Some ownerId), member_invitedAt = now,
         member_acceptedAt = Some now, member_createdAt = now \<rparr>"
  let ?P = "\<lambda>m. member_orgId m = uuid \<and> member_userId m = ownerId"
  have d: "distinct (map fst (orgMembers s))"
    using assms by (simp add: keyed_by_def)
  have k: "\<forall>(k', x) \<in> set (orgMembers s). ?P x \<longrightarrow> k' = member_key uuid ownerId"
    using assms by (auto simp: keyed_by_def member_key_of_def)
  have f: "filter ?P (values_of (AList.update (member_key uuid ownerId) ?m (orgMembers s))) = [?m]"
    by (rule filter_values_update [OF d k]) simp
  have kb: "keyed_by member_key_of (AList.update (member_key uuid ownerId) ?m (orgMembers s))"
    using assms by (rule keyed_by_update) (simp add: member_key_of_def)
  have o: "fst (createOrganization uuid now insertOrg ownerId s) =
             \<lparr> org_id = uuid, org_name = io_name insertOrg, org_ownerId = ownerId,
               org_stripeCustomerId = None, org_stripeSubscriptionId = None,
               org_plan = or_else (or_null (io_plan insertOrg)) ''free'',
               org_trialEnd = None, org_createdAt = now \<rparr>"
    by (simp add: createOrganization_def Let_def)
  show ?thesis
    using f kb o orgMembers_createOrganization [of uuid now insertOrg ownerId s]
    by (simp add: case_prod_beta)
qed

theorem createOrganization_owner_membership_witness:
  "keyed_by member_key_of (orgMembers sample_store) \<and>
   (let (org, s') = createOrganization ''orgC'' 9000
                      \<lparr> io_name = ''C'', io_plan = None, io_trialEnd = None \<rparr> ''u-bob''
                      sample_store
    in org_id org = ''orgC'' \<and> org_ownerId org = ''u-bob'' \<and>
       (\<exists>m. filter (\<lambda>m. member_orgId m = org_id org \<and> member_userId m = ''u-bob'')
               (values_of (orgMembers s')) = [m] \<and>
            member_role m = ''admin'' \<and> member_acceptedAt m = Some 9000) \<and>
       keyed_by member_key_of (orgMembers s'))"
proof -
  have h: "keyed_by member_key_of (orgMembers sample_store)"
    by (simp add: keyed_by_def member_key_of_def member_key_def sample_store_def
        sample_member_def)
  from h createOrganization_owner_membership [OF h] show ?thesis by (intro conjI)
qed

section \<open>Inviting a member\<close>

text \<open>
  The invitation of an address that no user has, sent by the admin of \<open>orgA\<close>, is
  answered 404 and not 400, so C8 fails as it is written.
\<close>

theorem invite_unknown_user_counterexample:
  "getUserByEmail ''nobody@x.com'' sample_store = None \<and>
   getOrgMember ''orgA'' ''u-alice'' sample_store = Some (sample_member ''orgA'' ''u-alice'' ''admin'') \<and>
   post_members 9000 (Some ''u-alice'') ''orgA'' ''nobody@x.com'' ''viewer'' sample_store
     = (json_error 404 ''User not found'', sample_store) \<and>
   res_status (fst (post_members 9000 (Some ''u-alice'') ''orgA'' ''nobody@x.com'' ''viewer''
                      sample_store)) \<noteq> 400"
proof -
  have u: "getUserByEmail ''nobody@x.com'' sample_store = None"
    by (simp add: getUserByEmail_def values_of_def sample_store_def sample_user_def)
  have m: "getOrgMember ''orgA'' ''u-alice'' sample_store
             = Some (sample_member ''orgA'' ''u-alice'' ''admin'')"
    by (simp add: getOrgMember_def member_key_def sample_store_def)
  have w: "may_write (sample_member ''orgA'' ''u-alice'' ''admin'')"
    by (simp add: may_write_def sample_member_def)
  have p: "post_members 9000 (Some ''u-alice'') ''orgA'' ''nobody@x.com'' ''viewer'' sample_store
     = (json_error 404 ''User not found'', sample_store)"
    unfolding post_members_def
    by (subst with_org_access_member [OF _ _ m]) (simp_all add: or_null_def u w)
  show ?thesis
    using u m p by (simp add: json_error_def)
qed

text \<open>
  C8, amended. For an invitation sent by an admin or editor of the organization: when
  the address belongs to no registered user the answer is 404 \<open>User not found\<close>; when
  the user it belongs to is already a member the answer is 400
  \<open>User is already a member\<close>; in both cases the store is unchanged, so no membership
  is created.
\<close>

theorem invite_member_rejections:
  assumes "or_null sessionUserId = Some userId" and "organizationId \<noteq> []"
    and "getOrgMember organizationId userId s = Some caller"
    and "may_write caller"
  shows "(getUserByEmail email s = None \<longrightarrow>
            post_members now sessionUserId organizationId email role s
              = (json_error 404 ''User not found'', s)) \<and>
         (\<forall>invited existing.
            getUserByEmail email s = Some invited \<and>
            getOrgMember organizationId (user_id invited) s = Some existing \<longrightarrow>
            post_members now sessionUserId organizationId email role s
              = (json_error 400 ''User is already a member'', s))"
  unfolding post_members_def
  by (subst with_org_access_member [OF assms(1-3)])+ (auto simp: assms(4))

theorem invite_member_rejections_witness:
  "or_null (Some ''u-bob'') = Some ''u-bob'' \<and>
   getOrgMember ''orgA'' ''u-bob'' sample_store = Some (sample_member ''orgA'' ''u-bob'' ''editor'') \<and>
   may_write (sample_member ''orgA'' ''u-bob'' ''editor'') \<and>
   getUserByEmail ''nobody@x.com'' sample_store = None \<and>
   post_members 9000 (Some ''u-bob'') ''orgA'' ''nobody@x.com'' ''viewer'' sample_store
     = (json_error 404 ''User not found'', sample_store) \<and>
   getUserByEmail ''carol@x.com'' sample_store
     = Some (sample_user ''u-carol'' ''carol@x.com'' ''Carol'') \<and>
   getOrgMember ''orgA'' ''u-carol'' sample_store
     = Some (sample_member ''orgA'' ''u-carol'' ''viewer'') \<and>
   post_members 9000 (Some ''u-bob'') ''orgA'' ''carol@x.com'' ''editor'' sample_store
     = (json_error 400 ''User is already a member'', sample_store)"
proof -
  have a: "or_null (Some ''u-bob'') = Some ''u-bob''" by (simp add: or_null_def)
  have n: "''orgA'' \<noteq> []" by simp
  have m: "getOrgMember ''orgA'' ''u-bob'' sample_store
             = Some (sample_member ''orgA'' ''u-bob'' ''editor'')"
    by (simp add: getOrgMember_def member_key_def sample_store_def)
  have w: "may_write (sample_member ''orgA'' ''u-bob'' ''editor'')"
    by (simp add: may_write_def sample_member_def)
  have u: "getUserByEmail ''nobody@x.com'' sample_store = None"
    by (simp add: getUserByEmail_def values_of_def sample_store_def sample_user_def)
  have c: "getUserByEmail ''carol@x.com'' sample_store
             = Some (sample_user ''u-carol'' ''carol@x.com'' ''Carol'')"
    by (simp add: getUserByEmail_def values_of_def sample_store_def sample_user_def)
  have e: "getOrgMember ''orgA'' (user_id (sample_user ''u-carol'' ''carol@x.com'' ''Carol''))
             sample_store = Some (sample_member ''orgA'' ''u-carol'' ''viewer'')"
    by (simp add: getOrgMember_def member_key_def sample_store_def sample_user_def)
  have e': "getOrgMember ''orgA'' ''u-carol'' sample_store
             = Some (sample_member ''orgA'' ''u-carol'' ''viewer'')"
    using e by (simp add: sample_user_def)
  note T = invite_member_rejections [OF a n m w]
  from T [of "''nobody@x.com''" 9000 "''viewer''"] u
  have r1: "post_members 9000 (Some ''u-bob'') ''orgA'' ''nobody@x.com'' ''viewer'' sample_store
     = (json_error 404 ''User not found'', sample_store)" by blast
  from T [of "''carol@x.com''" 9000 "''editor''"] c e
  have r2: "post_members 9000 (Some ''u-bob'') ''orgA'' ''carol@x.com'' ''editor'' sample_store
     = (json_error 400 ''User is already a member'', sample_store)" by blast
  from a m w u r1 c e' r2 show ?thesis by (intro conjI)
qed

section \<open>Moving a lead\<close>

lemma getStage_None_iff:
  "getStage ident orgId s = None \<longleftrightarrow> absent_or_foreign stage_orgId (stages s) ident orgId"
  by (simp add: getStage_def absent_or_foreign_def split: option.splits)

lemma getPipeline_None_iff:
  "getPipeline ident orgId s = None
     \<longleftrightarrow> absent_or_foreign pipeline_orgId (pipelines s) ident orgId"
  by (simp add: getPipeline_def absent_or_foreign_def split: option.splits)

lemma getLead_None_iff:
  "getLead ident orgId s = None \<longleftrightarrow> absent_or_foreign lead_orgId (leads s) ident orgId"
  by (simp add: getLead_def absent_or_foreign_def split: option.splits)

lemma post_lead_move_foreign:
  assumes "getStage stageId organizationId s = None"
  shows "post_lead_move now sessionUserId organizationId leadId stageId s =
           (case or_null sessionUserId of
              None \<Rightarrow> (json_error 401 ''Authentication required'', s)
            | Some userId \<Rightarrow>
                if organizationId = [] then (json_error 401 ''Organization access required'', s)
                else (case getOrgMember organizationId userId s of
                        None \<Rightarrow> (json_error 403 ''Access denied to organization'', s)
                      | Some caller \<Rightarrow>
                          if may_write caller then (json_error 404 ''Stage not found'', s)
                          else (json_error 403 ''Insufficient permissions'', s)))"
  using assms
  by (simp add: post_lead_move_def with_org_access_def split: option.splits)

text \<open>
  Carol, a viewer of \<open>orgA\<close>, asks to move a lead of \<open>orgA\<close> to a stage of \<open>orgB\<close>:
  the role check comes before the stage lookup, and the answer is 403, not 404. So C5
  fails as it is written, with its "regardless of the caller's role".
\<close>

theorem lead_move_foreign_stage_counterexample:
  "absent_or_foreign stage_orgId (stages sample_store) ''sB'' ''orgA'' \<and>
   getOrgMember ''orgA'' ''u-carol'' sample_store
     = Some (sample_member ''orgA'' ''u-carol'' ''viewer'') \<and>
   post_lead_move 9000 (Some ''u-carol'') ''orgA'' ''l1'' ''sB'' sample_store
     = (json_error 403 ''Insufficient permissions'', sample_store) \<and>
   res_status (fst (post_lead_move 9000 (Some ''u-carol'') ''orgA'' ''l1'' ''sB'' sample_store))
     \<noteq> 404"
proof -
  have a: "absent_or_foreign stage_orgId (stages sample_store) ''sB'' ''orgA''"
    by (simp add: absent_or_foreign_def sample_store_def sample_stage_def)
  have m: "getOrgMember ''orgA'' ''u-carol'' sample_store
             = Some (sample_member ''orgA'' ''u-carol'' ''viewer'')"
    by (simp add: getOrgMember_def member_key_def sample_store_def)
  have w: "\<not> may_write (sample_member ''orgA'' ''u-carol'' ''viewer'')"
    by (simp add: may_write_def sample_member_def)
  have g: "getStage ''sB'' ''orgA'' sample_store = None"
    using a by (simp add: getStage_None_iff)
  have p: "post_lead_move 9000 (Some ''u-carol'') ''orgA'' ''l1'' ''sB'' sample_store
     = (json_error 403 ''Insufficient permissions'', sample_store)"
    by (simp add: post_lead_move_foreign [OF g] or_null_def m w)
  show ?thesis using a m p by (simp add: json_error_def)
qed

text \<open>
  C5, amended. A lead-move request whose destination stage is absent or belongs to
  another organization never changes the store, so the lead stays where it is. Its
  answer is 401, 403 or 404: for a caller who is a member of the organization it is
  404 \<open>Stage not found\<close> when the caller's role is admin or editor, and 403
  \<open>Insufficient permissions\<close> for any other role. The store lookups \<open>getPipeline\<close>,
  \<open>getStage\<close> and \<open>getLead\<close> return nothing exactly when the id is absent or its
  record belongs to another organization: they have no other failure.
\<close>

theorem lead_move_foreign_stage:
  "(absent_or_foreign stage_orgId (stages s) stageId organizationId \<longrightarrow>
      snd (post_lead_move now sessionUserId organizationId leadId stageId s) = s \<and>
      res_status (fst (post_lead_move now sessionUserId organizationId leadId stageId s))
        \<in> {401, 403, 404} \<and>
      (\<forall>userId caller.
         or_null sessionUserId = Some userId \<and> organizationId \<noteq> [] \<and>
         getOrgMember organizationId userId s = Some caller \<longrightarrow>
         post_lead_move now sessionUserId organizationId leadId stageId s =
           (if may_write caller then json_error 404 ''Stage not found''
            else json_error 403 ''Insufficient permissions'', s))) \<and>
   (getPipeline ident orgId s = None
      \<longleftrightarrow> absent_or_foreign pipeline_orgId (pipelines s) ident orgId) \<and>
   (getStage ident orgId s = None
      \<longleftrightarrow> absent_or_foreign stage_orgId (stages s) ident orgId) \<and>
   (getLead ident orgId s = None
      \<longleftrightarrow> absent_or_foreign lead_orgId (leads s) ident orgId)"
proof -
  have "snd (post_lead_move now sessionUserId organizationId leadId stageId s) = s \<and>
      res_status (fst (post_lead_move now sessionUserId organizationId leadId stageId s))
        \<in> {401, 403, 404} \<and>
      (\<forall>userId caller.
         or_null sessionUserId = Some userId \<and> organizationId \<noteq> [] \<and>
         getOrgMember organizationId userId s = Some caller \<longrightarrow>
         post_lead_move now sessionUserId organizationId leadId stageId s =
           (if may_write caller then json_error 404 ''Stage not found''
            else json_error 403 ''Insufficient permissions'', s))"
    if "absent_or_foreign stage_orgId (stages s) stageId organizationId"
  proof -
    from that have g: "getStage stageId organizationId s = None"
      by (simp add: getStage_None_iff)
    show ?thesis
      by (simp add: post_lead_move_foreign [OF g] json_error_def split: option.splits)
  qed
  then show ?thesis
    by (simp only: getPipeline_None_iff getStage_None_iff getLead_None_iff) blast
qed

theorem lead_move_foreign_stage_witness:
  "absent_or_foreign stage_orgId (stages sample_store) ''sB'' ''orgA'' \<and>
   or_null (Some ''u-alice'') = Some ''u-alice'' \<and>
   getOrgMember ''orgA'' ''u-alice'' sample_store
     = Some (sample_member ''orgA'' ''u-alice'' ''admin'') \<and>
   may_write (sample_member ''orgA'' ''u-alice'' ''admin'') \<and>
   post_lead_move 9000 (Some ''u-alice'') ''orgA'' ''l1'' ''sB'' sample_store
     = (json_error 404 ''Stage not found'', sample_store)"
proof -
  have a: "absent_or_foreign stage_orgId (stages sample_store) ''sB'' ''orgA''"
    by (simp add: absent_or_foreign_def sample_store_def sample_stage_def)
  have o: "or_null (Some ''u-alice'') = Some ''u-alice''" by (simp add: or_null_def)
  have n: "''orgA'' \<noteq> []" by simp
  have m: "getOrgMember ''orgA'' ''u-alice'' sample_store
             = Some (sample_member ''orgA'' ''u-alice'' ''admin'')"
    by (simp add: getOrgMember_def member_key_def sample_store_def)
  have w: "may_write (sample_member ''orgA'' ''u-alice'' ''admin'')"
    by (simp add: may_write_def sample_member_def)
  note T = lead_move_foreign_stage
             [of sample_store "''sB''" "''orgA''" 9000 "Some ''u-alice''" "''l1''",
              THEN conjunct1, THEN mp, OF a]
  note Q = T [THEN conjunct2, THEN conjunct2, THEN spec, THEN spec, THEN mp,
              OF conjI [OF o conjI [OF n m]]]
  from Q w
  have r: "post_lead_move 9000 (Some ''u-alice'') ''orgA'' ''l1'' ''sB'' sample_store
     = (json_error 404 ''Stage not found'', sample_store)"
    by simp
  from a o m w r show ?thesis by (intro conjI)
qed

section \<open>Creating a pipeline under a plan limit\<close>






section \<open>Signing up\<close>







section \<open>Mentions in a comment\<close>










section \<open>Deleting a pipeline\<close>























lemma keyed_by_created:
  "keyed_by stage_id (stages empty_storage)"
  "keyed_by lead_id (leads empty_storage)"
  "keyed_by comment_id (leadComments empty_storage)"
  "keyed_by stage_id (stages s) \<Longrightarrow> keyed_by stage_id (stages (snd (createStage uuid now st s)))"
  "keyed_by lead_id (leads s) \<Longrightarrow> keyed_by lead_id (leads (snd (createLead uuid now l s)))"
  "keyed_by comment_id (leadComments s) \<Longrightarrow>
     keyed_by comment_id (leadComments (snd (createLeadComment uuid now c s)))"
  by (simp_all add: empty_storage_def keyed_by_def [of _ "[]"] createStage_def createLead_def
        createLeadComment_def Let_def keyed_by_update)




section \<open>Creating an API key\<close>

lemma length_to_hex: "length (to_hex bs) = 2 * length bs"
  by (induction bs) (simp_all add: to_hex_def)

lemma post_api_keys_writer:
  assumes "or_null sessionUserId = Some userId" and "organizationId \<noteq> []"
    and "getOrgMember organizationId userId s = Some caller" and "may_write caller"
    and "parseApiKey body = Inr parsed"
  shows "post_api_keys sha256_hex parseApiKey randomBytes24 uuid now sessionUserId organizationId
           body s =
         (json_ok
            (ApiKeyCreatedBody
               \<lparr> apikey_id = uuid, apikey_orgId = organizationId, apikey_name = ia_name parsed,
                 apikey_keyHash = sha256_hex (''sk_'' @ to_hex randomBytes24),
                 apikey_keyPreview = ''sk_'' @ take 9 (to_hex randomBytes24) @ replicate 20 (CHR ''*''),
                 apikey_lastUsedAt = None, apikey_createdBy = userId, apikey_createdAt = now \<rparr>
               (''sk_'' @ to_hex randomBytes24)),
          s\<lparr>apiKeys :=
               AList.update uuid
                 \<lparr> apikey_id = uuid, apikey_orgId = organizationId, apikey_name = ia_name parsed,
                   apikey_keyHash = sha256_hex (''sk_'' @ to_hex randomBytes24),
                   apikey_keyPreview =
                     ''sk_'' @ take 9 (to_hex randomBytes24) @ replicate 20 (CHR ''*''),
                   apikey_lastUsedAt = None, apikey_createdBy = userId, apikey_createdAt = now \<rparr>
                 (apiKeys s),
             auditLogs :=
               auditLogs s @
                 [\<lparr> log_id = length (auditLogs s) + 1, log_orgId = organizationId,
                    log_actorId = or_null (Some userId), log_action = ''create'',
                    log_entity = ''api_key'', log_entityId = or_null (Some uuid),
                    log_metadata = JObj [(''name'', JStr (ia_name parsed))],
                    log_createdAt = now \<rparr>]\<rparr>)"
  unfolding post_api_keys_def
  by (subst with_org_access_member [OF assms(1-3)])
     (simp add: assms(4,5) Let_def createApiKey_def createAuditLog_def or_else_def)

lemma to_hex_sample:
  "to_hex sample_bytes = ''ababababababababababababababababababababababab01''"
  by code_simp

text \<open>
  C2. An API-key creation request by an admin or editor of the organization, with a body
  the validator accepts, where \<open>randomBytes(24)\<close> returns 24 bytes. The answer is 200
  and carries the stored record together with \<open>keyValue\<close>, the plaintext: 51
  characters that begin with \<open>sk_\<close>. The record stored under the new id has the digest
  of the plaintext as \<open>keyHash\<close> and, as \<open>keyPreview\<close>, \<open>sk_\<close>, the first 9 of the 48
  hexadecimal digits and 20 asterisks; it has no other field made from the plaintext.
  The list of API keys read afterwards is the list of stored records of the
  organization, the new one among them: a list of \<open>ApiKey\<close> records, which have no
  \<open>keyValue\<close>. The store left by the request, the audit log included, depends on the
  plaintext through the digest and those 9 digits only: another draw of the 24 bytes
  with the same digest and the same 9 digits leaves the same store. The digest is a
  parameter here; that SHA-256 cannot be inverted is a property of the primitive, not of
  this code.
\<close>

theorem api_key_secret:
  assumes "or_null sessionUserId = Some userId" and "organizationId \<noteq> []"
    and "getOrgMember organizationId userId s = Some caller" and "may_write caller"
    and "parseApiKey body = Inr parsed"
    and "length randomBytes24 = 24"
  shows "let (res, s') = post_api_keys sha256_hex parseApiKey randomBytes24 uuid now sessionUserId
                           organizationId body s;
             keyValue = ''sk_'' @ to_hex randomBytes24;
             stored = \<lparr> apikey_id = uuid, apikey_orgId = organizationId,
                        apikey_name = ia_name parsed, apikey_keyHash = sha256_hex keyValue,
                        apikey_keyPreview = take 12 keyValue @ replicate 20 (CHR ''*''),
                        apikey_lastUsedAt = None, apikey_createdBy = userId,
                        apikey_createdAt = now \<rparr>
         in res = json_ok (ApiKeyCreatedBody stored keyValue) \<and>
            take 3 keyValue = ''sk_'' \<and> length keyValue = 51 \<and>
            apikey_keyPreview stored
              = ''sk_'' @ take 9 (to_hex randomBytes24) @ replicate 20 (CHR ''*'') \<and>
            apiKeys s' = AList.update uuid stored (apiKeys s) \<and>
            get_api_keys sessionUserId organizationId s'
              = (json_ok (ApiKeysBody (getApiKeys organizationId s')), s') \<and>
            stored \<in> set (getApiKeys organizationId s') \<and>
            (\<forall>otherBytes.
               take 9 (to_hex otherBytes) = take 9 (to_hex randomBytes24) \<and>
               sha256_hex (''sk_'' @ to_hex otherBytes) = sha256_hex keyValue \<longrightarrow>
               snd (post_api_keys sha256_hex parseApiKey otherBytes uuid now sessionUserId
                      organizationId body s) = s')"
proof -
  note W = post_api_keys_writer [where parseApiKey = parseApiKey and body = body, OF assms(1-5)]
  let ?stored = "\<lparr> apikey_id = uuid, apikey_orgId = organizationId,
                        apikey_name = ia_name parsed,
                        apikey_keyHash = sha256_hex (''sk_'' @ to_hex randomBytes24),
                        apikey_keyPreview =
                          ''sk_'' @ take 9 (to_hex randomBytes24) @ replicate 20 (CHR ''*''),
                        apikey_lastUsedAt = None, apikey_createdBy = userId,
                        apikey_createdAt = now \<rparr>"
  let ?s' = "snd (post_api_keys sha256_hex parseApiKey randomBytes24 uuid now sessionUserId
                    organizationId body s)"
  have m: "getOrgMember organizationId userId ?s' = Some caller"
    using assms(3) by (simp add: W getOrgMember_def)
  have l: "get_api_keys sessionUserId organizationId ?s'
             = (json_ok (ApiKeysBody (getApiKeys organizationId ?s')), ?s')"
    unfolding get_api_keys_def by (subst with_org_access_member [OF assms(1,2) m]) simp
  have i: "?stored \<in> set (getApiKeys organizationId ?s')"
    by (simp add: W getApiKeys_def value_in_update)
  show ?thesis
    using l i by (simp add: W case_prod_beta Let_def length_to_hex assms(6))
qed

theorem api_key_secret_witness:
  "or_null (Some ''u-alice'') = Some ''u-alice'' \<and>
   getOrgMember ''orgA'' ''u-alice'' sample_store
     = Some (sample_member ''orgA'' ''u-alice'' ''admin'') \<and>
   may_write (sample_member ''orgA'' ''u-alice'' ''admin'') \<and>
   sample_parseApiKey
     [(''orgId'', JStr ''orgA''), (''name'', JStr ''Deploy''), (''createdBy'', JStr ''u-alice'')]
     = Inr \<lparr> ia_orgId = ''orgA'', ia_name = ''Deploy'', ia_createdBy = ''u-alice'' \<rparr> \<and>
   length sample_bytes = 24 \<and>
   fst (post_api_keys sample_digest sample_parseApiKey sample_bytes ''k2'' 9000
          (Some ''u-alice'') ''orgA''
          [(''orgId'', JStr ''orgA''), (''name'', JStr ''Deploy''), (''createdBy'', JStr ''u-alice'')]
          sample_store)
     = json_ok
         (ApiKeyCreatedBody
            \<lparr> apikey_id = ''k2'', apikey_orgId = ''orgA'', apikey_name = ''Deploy'',
              apikey_keyHash = ''e3b0c44298fc1c14'',
              apikey_keyPreview = ''sk_ababababa********************'',
              apikey_lastUsedAt = None, apikey_createdBy = ''u-alice'',
              apikey_createdAt = 9000 \<rparr>
            ''sk_ababababababababababababababababababababababab01'') \<and>
   snd (post_api_keys sample_digest sample_parseApiKey (replicate 23 0xAB @ [0x02]) ''k2'' 9000
          (Some ''u-alice'') ''orgA''
          [(''orgId'', JStr ''orgA''), (''name'', JStr ''Deploy''), (''createdBy'', JStr ''u-alice'')]
          sample_store)
     = snd (post_api_keys sample_digest sample_parseApiKey sample_bytes ''k2'' 9000
              (Some ''u-alice'') ''orgA''
              [(''orgId'', JStr ''orgA''), (''name'', JStr ''Deploy''),
               (''createdBy'', JStr ''u-alice'')]
              sample_store)"
proof -
  let ?body = "[(''orgId'', JStr ''orgA''), (''name'', JStr ''Deploy''),
                (''createdBy'', JStr ''u-alice'')]"
  have o: "or_null (Some ''u-alice'') = Some ''u-alice''" by (simp add: or_null_def)
  have n: "''orgA'' \<noteq> []" by simp
  have m: "getOrgMember ''orgA'' ''u-alice'' sample_store
             = Some (sample_member ''orgA'' ''u-alice'' ''admin'')"
    by (simp add: getOrgMember_def member_key_def sample_store_def)
  have w: "may_write (sample_member ''orgA'' ''u-alice'' ''admin'')"
    by (simp add: may_write_def sample_member_def)
  have p: "sample_parseApiKey ?body
             = Inr \<lparr> ia_orgId = ''orgA'', ia_name = ''Deploy'', ia_createdBy = ''u-alice'' \<rparr>"
    by (simp add: sample_parseApiKey_def)
  have b: "length sample_bytes = 24" by (simp add: sample_bytes_def)
  have h: "to_hex (replicate 23 0xAB @ [0x02])
             = ''ababababababababababababababababababababababab02''"
    by code_simp
  have st: "replicate 20 (CHR ''*'') = ''********************''"
    by code_simp
  note T = api_key_secret
             [where parseApiKey = sample_parseApiKey and body = ?body
                and sha256_hex = sample_digest and uuid = "''k2''" and now = 9000,
              OF o n m w p b, unfolded Let_def case_prod_beta]
  have r: "fst (post_api_keys sample_digest sample_parseApiKey sample_bytes ''k2'' 9000
          (Some ''u-alice'') ''orgA'' ?body sample_store)
     = json_ok
         (ApiKeyCreatedBody
            \<lparr> apikey_id = ''k2'', apikey_orgId = ''orgA'', apikey_name = ''Deploy'',
              apikey_keyHash = ''e3b0c44298fc1c14'',
              apikey_keyPreview = ''sk_ababababa********************'',
              apikey_lastUsedAt = None, apikey_createdBy = ''u-alice'',
              apikey_createdAt = 9000 \<rparr>
            ''sk_ababababababababababababababababababababababab01'')"
    using T [THEN conjunct1] by (simp add: to_hex_sample sample_digest_def st)
  have q: "snd (post_api_keys sample_digest sample_parseApiKey (replicate 23 0xAB @ [0x02]) ''k2''
             9000 (Some ''u-alice'') ''orgA'' ?body sample_store)
     = snd (post_api_keys sample_digest sample_parseApiKey sample_bytes ''k2'' 9000
              (Some ''u-alice'') ''orgA'' ?body sample_store)"
    by (rule T [THEN conjunct2, THEN conjunct2, THEN conjunct2, THEN conjunct2, THEN conjunct2,
                THEN conjunct2, THEN conjunct2, THEN spec, THEN mp])
       (simp add: h to_hex_sample sample_digest_def)
  from o m w p b r q show ?thesis by (intro conjI)
qed

end
